theory Spec2Isabelle
  imports Main "HOL-Library.FSet"
begin

section \<open>Values and truthiness\<close>

text \<open>
  The module \<^verbatim>\<open>cubes/backends/sql/common.py\<close> handles schema, table, column and alias
  names. Each of them is either \<^verbatim>\<open>None\<close> or a string, so a name is a \<open>string option\<close>.
  Python's \<^verbatim>\<open>if x:\<close> and \<^verbatim>\<open>x or y\<close> test truthiness: \<^verbatim>\<open>None\<close> and the empty string are
  false, every other string is true.
\<close>

type_synonym name = "string option"

fun truthy :: "name \<Rightarrow> bool" where
  "truthy None = False"
| "truthy (Some s) = (s \<noteq> [])"

text \<open>Python's \<^verbatim>\<open>a or b\<close> on names.\<close>

definition py_or :: "name \<Rightarrow> name \<Rightarrow> name" where
  "py_or a b = (if truthy a then a else b)"

section \<open>Physical references and joins\<close>

text \<open>The named tuples \<^verbatim>\<open>PhysicalReference\<close> and \<^verbatim>\<open>Join\<close> (lines 23-29).\<close>

record PhysicalReference =
  schema :: name
  table :: name
  column :: name

record Join =
  master :: PhysicalReference
  detail :: PhysicalReference
  "alias" :: name

text \<open>
  A raw reference as \<^verbatim>\<open>coalesce_physical\<close> accepts it: a string, a dictionary (an
  association list, read with \<^verbatim>\<open>get\<close>; the first binding of a key is its value), or a
  list or tuple of names of any length.
\<close>

datatype raw_ref =
  RefStr string
| RefDict "(string \<times> name) list"
| RefList "name list"

datatype error =
  MissingCube
| InvalidReferenceShape
| InvalidJoinDetail

text \<open>
  \<^verbatim>\<open>MissingCube\<close> is the \<^verbatim>\<open>Exception\<close> of line 121, \<^verbatim>\<open>InvalidReferenceShape\<close> the
  \<^verbatim>\<open>Exception\<close> of line 71, \<^verbatim>\<open>InvalidJoinDetail\<close> the \<^verbatim>\<open>ValueError\<close> of line 329.
\<close>

subsection \<open>String splitting\<close>

text \<open>
  \<^verbatim>\<open>s.split(".")\<close>: the pieces between the dots, never an empty list. \<open>split_from cur s\<close>
  scans \<open>s\<close> with \<open>cur\<close> the piece read so far.
\<close>

fun split_from :: "string \<Rightarrow> string \<Rightarrow> string list" where
  "split_from cur [] = [cur]"
| "split_from cur (c # cs) =
     (if c = CHR ''.'' then cur # split_from [] cs else split_from (cur @ [c]) cs)"

definition split_dot :: "string \<Rightarrow> string list" where
  "split_dot s = split_from [] s"

text \<open>\<^verbatim>\<open>".".join(ws)\<close>.\<close>

fun join_dot :: "string list \<Rightarrow> string" where
  "join_dot [] = []"
| "join_dot [w] = w"
| "join_dot (w # v # ws) = w @ CHR ''.'' # join_dot (v # ws)"

text \<open>\<^verbatim>\<open>d.get(k)\<close> on a dictionary of names: the value, or \<^verbatim>\<open>None\<close> when the key is missing.\<close>

definition dict_get :: "(string \<times> name) list \<Rightarrow> string \<Rightarrow> name" where
  "dict_get d k = (case map_of d k of None \<Rightarrow> None | Some v \<Rightarrow> v)"

subsection \<open>coalesce_physical (lines 31-72)\<close>

definition coalesce_physical :: "raw_ref \<Rightarrow> name \<Rightarrow> name \<Rightarrow> error + PhysicalReference" where
  "coalesce_physical ref default_table schema' =
     (case ref of
        RefStr s \<Rightarrow>
          (let split = split_dot s in
           if length split > 1 then
             (let dim_name = hd split; attr_name = join_dot (tl split) in
              Inr \<lparr>schema = schema', table = Some dim_name, column = Some attr_name\<rparr>)
           else Inr \<lparr>schema = schema', table = default_table, column = Some s\<rparr>)
      | RefDict d \<Rightarrow>
          Inr \<lparr>schema = py_or (dict_get d ''schema'') schema',
               table = py_or (dict_get d ''table'') default_table,
               column = dict_get d ''column''\<rparr>
      | RefList xs \<Rightarrow>
          (if length xs = 2 then Inr \<lparr>schema = schema', table = xs ! 0, column = xs ! 1\<rparr>
           else if length xs = 3 then Inr \<lparr>schema = xs ! 0, table = xs ! 1, column = xs ! 2\<rparr>
           else Inl InvalidReferenceShape))"

text \<open>A \<^verbatim>\<open>PhysicalReference\<close> is a 3-tuple: read as a raw reference it is a list of three names.\<close>

definition as_list :: "PhysicalReference \<Rightarrow> raw_ref" where
  "as_list r = RefList [schema r, table r, column r]"

section \<open>The model objects read by the Mapper\<close>

text \<open>
  Modelled from the spec: the classes \<^verbatim>\<open>Cube\<close>, \<^verbatim>\<open>Dimension\<close>, \<^verbatim>\<open>Level\<close> and
  \<^verbatim>\<open>Attribute\<close> of \<^verbatim>\<open>cubes.model\<close> are not part of this module; the records hold the
  fields the Mapper reads. The string conversion of an attribute and of a dimension is its
  name. Reading \<^verbatim>\<open>attribute.locales\<close> may raise, give \<^verbatim>\<open>None\<close>, or give a list of locale
  identifiers.
\<close>

record Dimension =
  dimension_name :: string
  is_flat :: bool
  has_details :: bool

datatype locales_attr =
  LocalesRaises
| LocalesNone
| Locales "string list"

record Attribute =
  attribute_name :: string
  dimension :: "Dimension option"
  locales :: locales_attr

record Level =
  level_attributes :: "Attribute list"

record CubeDimension = Dimension +
  levels :: "Level list"

type_synonym mappings_dict = "(string \<times> raw_ref) list option"

record Cube =
  cube_name :: name
  fact :: name
  cube_mappings :: mappings_dict
  measures :: "Attribute list"
  details :: "Attribute list"
  dimensions :: "CubeDimension list"

text \<open>A raw join: \<^verbatim>\<open>join["master"]\<close>, \<^verbatim>\<open>join["detail"]\<close> and \<^verbatim>\<open>join.get("alias")\<close>.\<close>

record RawJoin =
  raw_master :: raw_ref
  raw_detail :: raw_ref
  raw_alias :: name

section \<open>The Mapper\<close>

text \<open>The attributes of a \<^verbatim>\<open>Mapper\<close> object; \<open>self_x\<close> is \<^verbatim>\<open>self.x\<close>.\<close>

record Mapper =
  self_cube :: Cube
  self_mappings :: mappings_dict
  self_locale :: name
  self_fact_name :: name
  self_schema :: name
  self_simplify_dimension_references :: bool
  self_dimension_table_prefix :: name
  self_joins :: "Join list"
  self_attributes :: "string \<rightharpoonup> Attribute"

subsection \<open>logical and split_logical (lines 173-210)\<close>

definition logical :: "Mapper \<Rightarrow> Attribute \<Rightarrow> string" where
  "logical self attribute =
     (case dimension attribute of
        Some dim \<Rightarrow>
          (if self_simplify_dimension_references self \<and> (is_flat dim \<and> \<not> has_details dim)
           then dimension_name dim
           else dimension_name dim @ ''.'' @ attribute_name attribute)
      | None \<Rightarrow> attribute_name attribute)"

definition split_logical :: "string \<Rightarrow> name \<times> string" where
  "split_logical reference =
     (let split = split_dot reference in
      if length split > 1 then (Some (hd split), join_dot (tl split))
      else (None, reference))"

subsection \<open>_collect_attributes (lines 138-156)\<close>

definition collect_attributes :: "Mapper \<Rightarrow> string \<rightharpoonup> Attribute" where
  "collect_attributes self =
     (let put = (\<lambda>attr m. m(logical self attr \<mapsto> attr));
          m = fold put (measures (self_cube self)) Map.empty;
          m = fold put (details (self_cube self)) m
      in fold (\<lambda>dim m. fold (\<lambda>level m. fold put (level_attributes level) m) (levels dim) m)
           (dimensions (self_cube self)) m)"

subsection \<open>_collect_joins (lines 158-171)\<close>

text \<open>
  The loop appends to \<^verbatim>\<open>self.joins\<close>; an exception of \<^verbatim>\<open>coalesce_physical\<close> leaves it.
  The master is coalesced with the fact name as default table, the detail with no default
  table, both without a schema argument.
\<close>

fun collect_joins_loop :: "name \<Rightarrow> RawJoin list \<Rightarrow> Join list \<Rightarrow> error + Join list" where
  "collect_joins_loop fact_name [] acc = Inr acc"
| "collect_joins_loop fact_name (join # rest) acc =
     (case coalesce_physical (raw_master join) fact_name None of
        Inl e \<Rightarrow> Inl e
      | Inr master' \<Rightarrow>
          (case coalesce_physical (raw_detail join) None None of
             Inl e \<Rightarrow> Inl e
           | Inr detail' \<Rightarrow>
               collect_joins_loop fact_name rest
                 (acc @ [\<lparr>master = master', detail = detail', alias = raw_alias join\<rparr>])))"

text \<open>\<^verbatim>\<open>joins or []\<close>, then the loop from the empty list.\<close>

definition collect_joins :: "Mapper \<Rightarrow> RawJoin list option \<Rightarrow> error + Join list" where
  "collect_joins self joins =
     collect_joins_loop (self_fact_name self) (case joins of None \<Rightarrow> [] | Some js \<Rightarrow> js) []"

text \<open>
  Whether a raw reference is a string or a 2-element list: the shapes that carry no schema
  of their own.
\<close>

definition without_schema :: "raw_ref \<Rightarrow> bool" where
  "without_schema r =
     (case r of RefStr s \<Rightarrow> True | RefList xs \<Rightarrow> length xs = 2 | RefDict d \<Rightarrow> False)"

subsection \<open>The constructor (lines 80-136)\<close>

definition Mapper_init ::
  "Cube option \<Rightarrow> mappings_dict \<Rightarrow> name \<Rightarrow> name \<Rightarrow> name \<Rightarrow> name \<Rightarrow> RawJoin list option
     \<Rightarrow> error + Mapper" where
  "Mapper_init cube mappings locale schema' fact_name dimension_prefix joins =
     (case cube of
        None \<Rightarrow> Inl MissingCube
      | Some c \<Rightarrow>
          (let self = \<lparr>self_cube = c, self_mappings = mappings, self_locale = locale,
                       self_fact_name = py_or (py_or fact_name (fact c)) (cube_name c),
                       self_schema = schema',
                       self_simplify_dimension_references = True,
                       self_dimension_table_prefix = dimension_prefix,
                       self_joins = [], self_attributes = Map.empty\<rparr>;
               self = self\<lparr>self_attributes := collect_attributes self\<rparr>
           in case collect_joins self joins of
                Inl e \<Rightarrow> Inl e
              | Inr js \<Rightarrow> Inr (self\<lparr>self_joins := js\<rparr>)))"

subsection \<open>physical (lines 212-308)\<close>

text \<open>
  Lines 264-271: the locale used by the rest of \<^verbatim>\<open>physical\<close>. The \<^verbatim>\<open>try\<close> block turns any
  exception into \<^verbatim>\<open>None\<close>. A requested locale \<^verbatim>\<open>None\<close> is not a member of a list of strings.
\<close>

definition fix_locale :: "Attribute \<Rightarrow> name \<Rightarrow> name" where
  "fix_locale attribute locale =
     (case locales attribute of
        LocalesRaises \<Rightarrow> None
      | LocalesNone \<Rightarrow> None
      | Locales ls \<Rightarrow>
          (if ls \<noteq> [] then
             (if (case locale of None \<Rightarrow> False | Some l \<Rightarrow> l \<in> set ls) then locale
              else Some (hd ls))
           else None))"

text \<open>Truthiness of a raw reference and of the value \<^verbatim>\<open>mappings.get(key)\<close> returns.\<close>

fun truthy_ref :: "raw_ref \<Rightarrow> bool" where
  "truthy_ref (RefStr s) = (s \<noteq> [])"
| "truthy_ref (RefDict d) = (d \<noteq> [])"
| "truthy_ref (RefList xs) = (xs \<noteq> [])"

definition truthy_mappings :: "mappings_dict \<Rightarrow> bool" where
  "truthy_mappings m = (case m of None \<Rightarrow> False | Some d \<Rightarrow> d \<noteq> [])"

text \<open>
  Lines 274-286: the override lookup. The result is \<^verbatim>\<open>reference\<close>: \<open>None\<close> when it stays
  \<^verbatim>\<open>None\<close>.
\<close>

definition mapped_reference :: "Mapper \<Rightarrow> Attribute \<Rightarrow> name \<Rightarrow> error + PhysicalReference option" where
  "mapped_reference self attribute locale =
     (if truthy_mappings (cube_mappings (self_cube self)) then
        (let logical' = logical self attribute;
             logical' = (if truthy locale then logical' @ ''.'' @ the locale else logical');
             mapped_ref = map_of (the (cube_mappings (self_cube self))) logical'
         in case mapped_ref of
              None \<Rightarrow> Inr None
            | Some r \<Rightarrow>
                (if truthy_ref r then
                   (case coalesce_physical r (self_fact_name self) (self_schema self) of
                      Inl e \<Rightarrow> Inl e
                    | Inr reference \<Rightarrow> Inr (Some reference))
                 else Inr None))
      else Inr None)"

text \<open>Lines 290-306: the default physical reference.\<close>

definition default_reference :: "Mapper \<Rightarrow> Attribute \<Rightarrow> name \<Rightarrow> PhysicalReference" where
  "default_reference self attribute locale =
     (let column_name = attribute_name attribute;
          column_name = (if truthy locale then column_name @ ''_'' @ the locale else column_name);
          table_name =
            (case dimension attribute of
               Some dim \<Rightarrow>
                 (if \<not> (self_simplify_dimension_references self
                          \<and> (is_flat dim \<and> \<not> has_details dim))
                  then
                    (let table_name = dimension_name dim in
                     if truthy (self_dimension_table_prefix self)
                     then Some (the (self_dimension_table_prefix self) @ table_name)
                     else Some table_name)
                  else self_fact_name self)
             | None \<Rightarrow> self_fact_name self)
      in \<lparr>schema = self_schema self, table = table_name, column = Some column_name\<rparr>)"

text \<open>
  A \<^verbatim>\<open>PhysicalReference\<close> is a non-empty tuple, so \<^verbatim>\<open>if not reference\<close> holds exactly when
  no override was found.
\<close>

definition physical :: "Mapper \<Rightarrow> Attribute \<Rightarrow> name \<Rightarrow> error + PhysicalReference" where
  "physical self attribute locale0 =
     (let locale = fix_locale attribute locale0 in
      case mapped_reference self attribute locale of
        Inl e \<Rightarrow> Inl e
      | Inr (Some reference) \<Rightarrow> Inr reference
      | Inr None \<Rightarrow> Inr (default_reference self attribute locale))"

subsection \<open>table_map (lines 310-337)\<close>

type_synonym table_key = "name \<times> name"



subsection \<open>relevant_joins (lines 339-376)\<close>

text \<open>The two keys of a join compared in the loop (lines 359-360).\<close>

definition master_key :: "Join \<Rightarrow> table_key" where
  "master_key join = (schema (master join), table (master join))"

definition detail_key :: "Join \<Rightarrow> table_key" where
  "detail_key join = (schema (detail join), py_or (alias join) (table (detail join)))"


text \<open>
  The \<^verbatim>\<open>for\<close> loop with its \<^verbatim>\<open>break\<close> (lines 357-372), on the state
  \<^verbatim>\<open>(tables_to_join, joined_tables, joins)\<close>, for the table popped from the work-set.
\<close>

type_synonym rj_state = "table_key fset \<times> table_key fset \<times> Join list"

fun scan_joins :: "Join list \<Rightarrow> table_key \<Rightarrow> rj_state \<Rightarrow> rj_state" where
  "scan_joins [] table' st = st"
| "scan_joins (join # rest) table' (tables_to_join, joined_tables, joins) =
     (if table' = detail_key join then
        ((if master_key join |\<notin>| joined_tables
          then finsert (master_key join) tables_to_join else tables_to_join),
         finsert (detail_key join) joined_tables,
         joins @ [join])
      else scan_joins rest table' (tables_to_join, joined_tables, joins))"

text \<open>
  The \<^verbatim>\<open>while\<close> loop (lines 353-372). \<^verbatim>\<open>tables_to_join.pop()\<close> removes an arbitrary
  element of the set, so the loop is modelled by the set of the join lists it can return,
  one run for every choice of the popped table. The recursion is well-founded on the
  measure below: a table outside \<^verbatim>\<open>joined_tables\<close> weighs one in the work-set, a table
  inside it two, and every detail key not yet joined two more.
\<close>

definition rj_measure :: "Join list \<Rightarrow> rj_state \<Rightarrow> nat" where
  "rj_measure js st =
     (case st of (W, J, res) \<Rightarrow>
        fcard W + fcard (W |\<inter>| J) + 2 * fcard (fset_of_list (map detail_key js) |-| J))"

lemma scan_joins_find:
  "scan_joins js t (W, J, res) =
     (case find (\<lambda>j. t = detail_key j) js of
        None \<Rightarrow> (W, J, res)
      | Some j \<Rightarrow> ((if master_key j |\<notin>| J then finsert (master_key j) W else W),
                   finsert t J, res @ [j]))"
  by (induction js) auto

lemma find_detail_key:
  "find (\<lambda>j. t = detail_key j) js = Some j \<Longrightarrow> t |\<in>| fset_of_list (map detail_key js)"
  by (auto simp: find_Some_iff fset_of_list_elem)

lemma fcard_pop: "t |\<in>| W \<Longrightarrow> Suc (fcard (W |-| {|t|})) = fcard W"
  by (rule fcard_Suc_fminus1)

lemma fcard_finsert_le: "fcard (finsert m A) \<le> Suc (fcard A)"
  by (simp add: fcard_finsert_if)

lemma measure_no_match:
  assumes "t |\<in>| W"
  shows "fcard (W |-| {|t|}) + fcard ((W |-| {|t|}) |\<inter>| J) < fcard W + fcard (W |\<inter>| J)"
proof -
  have "fcard ((W |-| {|t|}) |\<inter>| J) \<le> fcard (W |\<inter>| J)"
    by (rule fcard_mono) auto
  with fcard_pop [OF assms] show ?thesis by linarith
qed

lemma measure_match_new:
  assumes "t |\<in>| W" "t |\<in>| D" "t |\<notin>| J"
    and "W' = W |-| {|t|} \<or> (W' = finsert m (W |-| {|t|}) \<and> m |\<notin>| J)"
  shows "fcard W' + fcard (W' |\<inter>| finsert t J) + 2 * fcard (D |-| finsert t J)
      < fcard W + fcard (W |\<inter>| J) + 2 * fcard (D |-| J)"
proof -
  have a: "fcard W' \<le> fcard W"
    using assms(4) fcard_pop [OF assms(1)] fcard_finsert_le [of m "W |-| {|t|}"] by auto
  have "W' |\<inter>| finsert t J |\<subseteq>| finsert t (W |\<inter>| J)"
    using assms(4) by auto
  then have "fcard (W' |\<inter>| finsert t J) \<le> fcard (finsert t (W |\<inter>| J))"
    by (rule fcard_mono)
  then have b: "fcard (W' |\<inter>| finsert t J) \<le> Suc (fcard (W |\<inter>| J))"
    using fcard_finsert_le [of t "W |\<inter>| J"] by linarith
  have "D |-| finsert t J = (D |-| J) |-| {|t|}" by auto
  moreover have "t |\<in>| D |-| J" using assms by auto
  ultimately have c: "Suc (fcard (D |-| finsert t J)) = fcard (D |-| J)"
    using fcard_pop by metis
  from a b c show ?thesis by linarith
qed

lemma measure_match_old:
  assumes "t |\<in>| W" "t |\<in>| J"
    and "W' = W |-| {|t|} \<or> (W' = finsert m (W |-| {|t|}) \<and> m |\<notin>| J)"
  shows "fcard W' + fcard (W' |\<inter>| finsert t J) + 2 * fcard (D |-| finsert t J)
      < fcard W + fcard (W |\<inter>| J) + 2 * fcard (D |-| J)"
proof -
  have J: "finsert t J = J" using assms(2) by auto
  have a: "fcard W' \<le> fcard W"
    using assms(3) fcard_pop [OF assms(1)] fcard_finsert_le [of m "W |-| {|t|}"] by auto
  have "W' |\<inter>| J = (W |\<inter>| J) |-| {|t|}" using assms(3) by auto
  moreover have "t |\<in>| W |\<inter>| J" using assms by auto
  ultimately have b: "Suc (fcard (W' |\<inter>| J)) = fcard (W |\<inter>| J)"
    using fcard_pop by metis
  from a b show ?thesis unfolding J by linarith
qed

lemma rj_measure_decreases:
  assumes "t |\<in>| W"
  shows "rj_measure js (scan_joins js t (W |-| {|t|}, J, res)) < rj_measure js (W, J, res)"
proof (cases "find (\<lambda>j. t = detail_key j) js")
  case None
  then show ?thesis
    using measure_no_match [OF assms, of J] by (simp add: scan_joins_find rj_measure_def)
next
  case (Some j)
  let ?D = "fset_of_list (map detail_key js)"
  let ?W' = "if master_key j |\<notin>| J then finsert (master_key j) (W |-| {|t|}) else W |-| {|t|}"
  have D: "t |\<in>| ?D" using Some by (rule find_detail_key)
  have W': "?W' = W |-| {|t|} \<or> (?W' = finsert (master_key j) (W |-| {|t|}) \<and> master_key j |\<notin>| J)"
    by simp
  have "fcard ?W' + fcard (?W' |\<inter>| finsert t J) + 2 * fcard (?D |-| finsert t J)
      < fcard W + fcard (W |\<inter>| J) + 2 * fcard (?D |-| J)"
  proof (cases "t |\<in>| J")
    case True
    from measure_match_old [OF assms True W'] show ?thesis .
  next
    case False
    from measure_match_new [OF assms D False W'] show ?thesis .
  qed
  then show ?thesis
    using Some by (simp add: scan_joins_find rj_measure_def)
qed

function rj_while :: "Join list \<Rightarrow> rj_state \<Rightarrow> Join list set" where
  "rj_while js (tables_to_join, joined_tables, joins) =
     (if tables_to_join = {||} then {joins}
      else (\<Union>table' \<in> fset tables_to_join.
              rj_while js
                (scan_joins js table' (tables_to_join |-| {|table'|}, joined_tables, joins))))"
  by pat_completeness auto
termination
  by (relation "measure (\<lambda>(js, st). rj_measure js st)") (simp_all add: rj_measure_decreases)

declare rj_while.simps [simp del]

text \<open>
  \<^verbatim>\<open>relevant_joins\<close>: the work-set starts as the set of the \<^verbatim>\<open>(ref[0], ref[1])\<close> of the
  references, \<^verbatim>\<open>joined_tables\<close> and \<^verbatim>\<open>joins\<close> start empty. The value is the set of the lists
  the call can return.
\<close>

definition relevant_joins :: "Mapper \<Rightarrow> PhysicalReference list \<Rightarrow> Join list set" where
  "relevant_joins self attributes =
     rj_while (self_joins self)
       (fset_of_list (map (\<lambda>ref. (schema ref, table ref)) attributes), {||}, [])"

text \<open>One iteration of the loop as a relation: the state after it, the state before it.\<close>

definition rj_iteration :: "Join list \<Rightarrow> (rj_state \<times> rj_state) set" where
  "rj_iteration js =
     {(st', st). \<exists>t. t |\<in>| fst st \<and> st' = scan_joins js t (fst st |-| {|t|}, snd st)}"

section \<open>Example objects\<close>

text \<open>
  The objects of the examples of the specification: a cube \<^verbatim>\<open>sales\<close> with the measure
  \<^verbatim>\<open>amount\<close>, a dimension \<^verbatim>\<open>date\<close> that is not flat with the attribute \<^verbatim>\<open>month\<close>, the
  override table \<^verbatim>\<open>{"date.month": "dim_date.month_num"}\<close>, and the raw join
  \<^verbatim>\<open>{master: ["sales", "date_id"], detail: ["dim_date", "id"], alias: "d"}\<close>.
\<close>

definition date_dimension :: Dimension where
  "date_dimension = \<lparr>dimension_name = ''date'', is_flat = False, has_details = False\<rparr>"

definition month_attribute :: Attribute where
  "month_attribute =
     \<lparr>attribute_name = ''month'', dimension = Some date_dimension, locales = Locales []\<rparr>"

definition amount_attribute :: Attribute where
  "amount_attribute = \<lparr>attribute_name = ''amount'', dimension = None, locales = Locales []\<rparr>"

definition sales_cube :: Cube where
  "sales_cube =
     \<lparr>cube_name = Some ''sales'', fact = None,
      cube_mappings = Some [(''date.month'', RefStr ''dim_date.month_num'')],
      measures = [amount_attribute], details = [],
      dimensions = [\<lparr>dimension_name = ''date'', is_flat = False, has_details = False,
                      levels = [\<lparr>level_attributes = [month_attribute]\<rparr>]\<rparr>]\<rparr>"

definition date_raw_join :: RawJoin where
  "date_raw_join =
     \<lparr>raw_master = RefList [Some ''sales'', Some ''date_id''],
      raw_detail = RefList [Some ''dim_date'', Some ''id''],
      raw_alias = Some ''d''\<rparr>"

definition date_join :: Join where
  "date_join =
     \<lparr>master = \<lparr>schema = None, table = Some ''sales'', column = Some ''date_id''\<rparr>,
      detail = \<lparr>schema = None, table = Some ''dim_date'', column = Some ''id''\<rparr>,
      alias = Some ''d''\<rparr>"

text \<open>The Mapper the constructor builds for them, with the default schema \<^verbatim>\<open>public\<close>.\<close>

definition sales_mapper :: Mapper where
  "sales_mapper =
     \<lparr>self_cube = sales_cube, self_mappings = None, self_locale = None,
      self_fact_name = Some ''sales'', self_schema = Some ''public'',
      self_simplify_dimension_references = True, self_dimension_table_prefix = None,
      self_joins = [date_join],
      self_attributes = [''amount'' \<mapsto> amount_attribute, ''date.month'' \<mapsto> month_attribute]\<rparr>"

text \<open>
  A chain of two joins, \<^verbatim>\<open>category\<close> to \<^verbatim>\<open>product\<close> to the fact table, and a
  localized attribute with an override for one of its locales.
\<close>

definition product_join :: Join where
  "product_join =
     \<lparr>master = \<lparr>schema = None, table = Some ''sales'', column = Some ''product_id''\<rparr>,
      detail = \<lparr>schema = None, table = Some ''product'', column = Some ''id''\<rparr>,
      alias = None\<rparr>"

definition category_join :: Join where
  "category_join =
     \<lparr>master = \<lparr>schema = None, table = Some ''product'', column = Some ''category_id''\<rparr>,
      detail = \<lparr>schema = None, table = Some ''category'', column = Some ''id''\<rparr>,
      alias = None\<rparr>"

definition label_attribute :: Attribute where
  "label_attribute =
     \<lparr>attribute_name = ''label'', dimension = None, locales = Locales [''en'', ''sk'']\<rparr>"

definition label_mapper :: Mapper where
  "label_mapper =
     sales_mapper\<lparr>self_cube :=
       sales_cube\<lparr>cube_mappings := Some [(''label.sk'', RefStr ''tr.label_sk'')]\<rparr>\<rparr>"

section \<open>Properties of coalesce_physical\<close>

text \<open>
  C7. Whenever \<^verbatim>\<open>coalesce_physical\<close> succeeds, its result, read again as a list of three
  names and coalesced with any defaults, is returned unchanged.
\<close>

theorem coalesce_idempotent:
  "coalesce_physical x default_table schema' = Inr r \<Longrightarrow>
   coalesce_physical (as_list r) default_table' schema'' = Inr r"
  by (simp add: coalesce_physical_def as_list_def)

theorem coalesce_idempotent_witness:
  "coalesce_physical (RefStr ''dim_date.month_num'') (Some ''sales'') (Some ''public'')
     = Inr \<lparr>schema = Some ''public'', table = Some ''dim_date'', column = Some ''month_num''\<rparr>
   \<and> coalesce_physical
         (as_list \<lparr>schema = Some ''public'', table = Some ''dim_date'', column = Some ''month_num''\<rparr>)
         None None
     = Inr \<lparr>schema = Some ''public'', table = Some ''dim_date'', column = Some ''month_num''\<rparr>"
proof -
  have h: "coalesce_physical (RefStr ''dim_date.month_num'') (Some ''sales'') (Some ''public'')
     = Inr \<lparr>schema = Some ''public'', table = Some ''dim_date'', column = Some ''month_num''\<rparr>"
    by (simp add: coalesce_physical_def split_dot_def)
  from h coalesce_idempotent [OF h, of None None] show ?thesis by simp
qed

text \<open>
  C5, as stated, fails: a dictionary that supplies the schema as the empty string gets the
  default schema, because \<^verbatim>\<open>ref.get("schema") or schema\<close> tests truthiness.
\<close>

theorem coalesce_dict_empty_schema_counterexample:
  "map_of [(''schema'', Some ''''), (''table'', Some ''t''), (''column'', Some ''c'')] ''schema''
     = Some (Some '''')
   \<and> coalesce_physical
        (RefDict [(''schema'', Some ''''), (''table'', Some ''t''), (''column'', Some ''c'')])
        (Some ''sales'') (Some ''public'')
     = Inr \<lparr>schema = Some ''public'', table = Some ''t'', column = Some ''c''\<rparr>"
  by (simp add: coalesce_physical_def dict_get_def py_or_def)

text \<open>
  C5, amended. For every dictionary and all defaults \<^verbatim>\<open>coalesce_physical\<close> succeeds; the
  schema and the table of the result are the dictionary's values whenever these are
  non-empty strings, and the defaults when the key is missing or its value is \<^verbatim>\<open>None\<close> or
  the empty string; the column is the dictionary's value (\<^verbatim>\<open>None\<close> when the key is missing).
\<close>

theorem coalesce_dict_precedence:
  "\<exists>r. coalesce_physical (RefDict d) default_table schema' = Inr r
     \<and> (\<forall>v. map_of d ''schema'' = Some (Some v) \<and> v \<noteq> [] \<longrightarrow> schema r = Some v)
     \<and> (map_of d ''schema'' \<in> {None, Some None, Some (Some [])} \<longrightarrow> schema r = schema')
     \<and> (\<forall>v. map_of d ''table'' = Some (Some v) \<and> v \<noteq> [] \<longrightarrow> table r = Some v)
     \<and> (map_of d ''table'' \<in> {None, Some None, Some (Some [])} \<longrightarrow> table r = default_table)
     \<and> (\<forall>v. map_of d ''column'' = Some v \<longrightarrow> column r = v)
     \<and> (map_of d ''column'' = None \<longrightarrow> column r = None)"
  by (auto simp: coalesce_physical_def dict_get_def py_or_def)

theorem coalesce_dict_precedence_witness:
  "\<exists>r. coalesce_physical (RefDict [(''schema'', Some ''dw''), (''column'', Some ''c'')])
          (Some ''sales'') (Some ''public'') = Inr r
     \<and> schema r = Some ''dw'' \<and> table r = Some ''sales'' \<and> column r = Some ''c''"
  using coalesce_dict_precedence
    [of "[(''schema'', Some ''dw''), (''column'', Some ''c'')]" "Some ''sales''" "Some ''public''"]
  by simp

section \<open>Properties of the constructor\<close>

lemma collect_joins_loop_all2:
  "collect_joins_loop fact_name raws acc = Inr js \<Longrightarrow>
   \<exists>js'. js = acc @ js' \<and>
     list_all2 (\<lambda>raw j. coalesce_physical (raw_master raw) fact_name None = Inr (master j)
                       \<and> coalesce_physical (raw_detail raw) None None = Inr (detail j)
                       \<and> alias j = raw_alias raw) raws js'"
proof (induction raws arbitrary: acc)
  case Nil
  then show ?case by simp
next
  case (Cons raw raws)
  from Cons.prems obtain m d where
    m: "coalesce_physical (raw_master raw) fact_name None = Inr m" and
    d: "coalesce_physical (raw_detail raw) None None = Inr d" and
    rest: "collect_joins_loop fact_name raws
             (acc @ [\<lparr>master = m, detail = d, alias = raw_alias raw\<rparr>]) = Inr js"
    by (auto split: sum.splits)
  from Cons.IH [OF rest] obtain js' where
    "js = (acc @ [\<lparr>master = m, detail = d, alias = raw_alias raw\<rparr>]) @ js'" and
    "list_all2 (\<lambda>raw j. coalesce_physical (raw_master raw) fact_name None = Inr (master j)
                       \<and> coalesce_physical (raw_detail raw) None None = Inr (detail j)
                       \<and> alias j = raw_alias raw) raws js'"
    by blast
  with m d show ?case by simp
qed

lemma coalesce_without_schema:
  "without_schema r \<Longrightarrow> coalesce_physical r default_table None = Inr p \<Longrightarrow> schema p = None"
  by (auto simp: without_schema_def coalesce_physical_def Let_def split: raw_ref.splits if_splits)

lemma Mapper_init_Inr:
  "Mapper_init cube mappings locale schema' fact_name dimension_prefix joins = Inr self \<Longrightarrow>
   \<exists>c. cube = Some c \<and> self_cube self = c \<and> self_mappings self = mappings
      \<and> self_schema self = schema'
      \<and> self_fact_name self = py_or (py_or fact_name (fact c)) (cube_name c)
      \<and> self_simplify_dimension_references self
      \<and> self_dimension_table_prefix self = dimension_prefix
      \<and> collect_joins_loop (self_fact_name self) (case joins of None \<Rightarrow> [] | Some js \<Rightarrow> js) []
           = Inr (self_joins self)"
  by (auto simp: Mapper_init_def Let_def collect_joins_def split: option.splits sum.splits)

text \<open>The constructor builds the example Mapper from the example cube and raw join.\<close>

lemma sales_mapper_init:
  "Mapper_init (Some sales_cube) None None (Some ''public'') None None (Some [date_raw_join])
     = Inr sales_mapper"
  by (simp add: Mapper_init_def sales_mapper_def sales_cube_def date_raw_join_def date_join_def
      collect_joins_def coalesce_physical_def py_or_def collect_attributes_def logical_def
      month_attribute_def amount_attribute_def date_dimension_def)

text \<open>
  C9. A Mapper that the constructor returns holds one join for each raw join, in the same
  order; its master is the raw master coalesced with the fact name as default table and no
  schema, its detail the raw detail coalesced with no default table and no schema. Where
  the raw master or detail is a string or a 2-element list, the schema of that side is
  \<^verbatim>\<open>None\<close> whatever default schema the Mapper has, and a reference whose (schema, table)
  equals such a join's detail key has the schema \<^verbatim>\<open>None\<close>.
\<close>

theorem collect_joins_no_default_schema:
  assumes "Mapper_init cube mappings locale schema' fact_name dimension_prefix joins = Inr self"
    and "raws = (case joins of None \<Rightarrow> [] | Some js \<Rightarrow> js)"
  shows "length (self_joins self) = length raws \<and>
    (\<forall>i<length raws.
       coalesce_physical (raw_master (raws ! i)) (self_fact_name self) None
         = Inr (master (self_joins self ! i))
     \<and> coalesce_physical (raw_detail (raws ! i)) None None = Inr (detail (self_joins self ! i))
     \<and> (without_schema (raw_master (raws ! i)) \<longrightarrow> schema (master (self_joins self ! i)) = None)
     \<and> (without_schema (raw_detail (raws ! i)) \<longrightarrow>
          schema (detail (self_joins self ! i)) = None
          \<and> (\<forall>ref. (schema ref, table ref) = detail_key (self_joins self ! i)
                 \<longrightarrow> schema ref = None)))"
proof -
  let ?P = "\<lambda>raw j. coalesce_physical (raw_master raw) (self_fact_name self) None = Inr (master j)
                       \<and> coalesce_physical (raw_detail raw) None None = Inr (detail j)
                       \<and> alias j = raw_alias raw"
  from Mapper_init_Inr [OF assms(1)] assms(2)
  have "collect_joins_loop (self_fact_name self) raws [] = Inr (self_joins self)" by auto
  from collect_joins_loop_all2 [OF this]
  have all2: "list_all2 ?P raws (self_joins self)" by simp
  then have len: "length (self_joins self) = length raws"
    by (simp add: list_all2_lengthD)
  have "\<And>i. i < length raws \<Longrightarrow> ?P (raws ! i) (self_joins self ! i)"
    using all2 by (simp add: list_all2_conv_all_nth)
  then show ?thesis
    using len by (auto simp: detail_key_def dest: coalesce_without_schema)
qed

theorem collect_joins_no_default_schema_witness:
  "Mapper_init (Some sales_cube) None None (Some ''public'') None None (Some [date_raw_join])
     = Inr sales_mapper
   \<and> without_schema (raw_detail date_raw_join)
   \<and> schema (master (self_joins sales_mapper ! 0)) = None
   \<and> schema (detail (self_joins sales_mapper ! 0)) = None"
proof -
  note h = sales_mapper_init
  have w: "without_schema (raw_detail date_raw_join)" "without_schema (raw_master date_raw_join)"
    by (simp_all add: without_schema_def date_raw_join_def)
  have "[date_raw_join] = (case Some [date_raw_join] of None \<Rightarrow> [] | Some js \<Rightarrow> js)"
    by simp
  from collect_joins_no_default_schema [OF h this] w h
  show ?thesis by auto
qed

lemma logical_mappings_update [simp]:
  "logical (self\<lparr>self_mappings := mp\<rparr>) = logical self"
  by (rule ext) (simp add: logical_def cong: option.case_cong if_cong)

lemma physical_mappings_update:
  "physical (self\<lparr>self_mappings := mp\<rparr>) a l = physical self a l"
  by (simp add: physical_def mapped_reference_def default_reference_def
      cong: option.case_cong sum.case_cong if_cong)

lemma Mapper_init_mappings:
  assumes "Mapper_init cube mp1 locale schema' fact_name dimension_prefix joins = Inr m1"
  shows "Mapper_init cube mp2 locale schema' fact_name dimension_prefix joins
           = Inr (m1\<lparr>self_mappings := mp2\<rparr>)"
proof -
  from assms obtain c where c: "cube = Some c" by (auto simp: Mapper_init_def split: option.splits)
  have l: "\<And>s mp. logical (s\<lparr>self_mappings := mp\<rparr>) = logical s" by simp
  show ?thesis
    using assms unfolding c
    by (auto simp: Mapper_init_def Let_def collect_joins_def collect_attributes_def logical_def
        split: sum.splits cong: option.case_cong if_cong)
qed

text \<open>
  C8. \<^verbatim>\<open>physical\<close> does not read \<^verbatim>\<open>self.mappings\<close>: replacing it leaves every result
  unchanged, and two Mappers that the constructor returns for the same arguments apart from
  \<^verbatim>\<open>mappings\<close> give the same result for every attribute and locale.
\<close>

theorem physical_ignores_mappings_argument:
  "physical (self\<lparr>self_mappings := mappings'\<rparr>) attribute locale = physical self attribute locale
   \<and> (Mapper_init cube mappings_a locale0 schema' fact_name dimension_prefix joins = Inr mapper_a
      \<and> Mapper_init cube mappings_b locale0 schema' fact_name dimension_prefix joins = Inr mapper_b
      \<longrightarrow> physical mapper_a attribute locale = physical mapper_b attribute locale)"
proof -
  have "physical mapper_a attribute locale = physical mapper_b attribute locale"
    if a: "Mapper_init cube mappings_a locale0 schema' fact_name dimension_prefix joins
             = Inr mapper_a"
    and b: "Mapper_init cube mappings_b locale0 schema' fact_name dimension_prefix joins
             = Inr mapper_b"
  proof -
    from Mapper_init_mappings [OF a, of mappings_b] b
    have "mapper_b = mapper_a\<lparr>self_mappings := mappings_b\<rparr>"
      by simp
    then show ?thesis by (simp add: physical_mappings_update)
  qed
  then show ?thesis by (simp add: physical_mappings_update)
qed

theorem physical_ignores_mappings_argument_witness:
  "Mapper_init (Some sales_cube) None None (Some ''public'') None None (Some [date_raw_join])
     = Inr sales_mapper
   \<and> Mapper_init (Some sales_cube) (Some [(''amount'', RefStr ''other.column'')]) None
        (Some ''public'') None None (Some [date_raw_join])
     = Inr (sales_mapper\<lparr>self_mappings := Some [(''amount'', RefStr ''other.column'')]\<rparr>)
   \<and> physical sales_mapper amount_attribute None
     = physical (sales_mapper\<lparr>self_mappings := Some [(''amount'', RefStr ''other.column'')]\<rparr>)
         amount_attribute None"
proof -
  note a = sales_mapper_init
  have b: "Mapper_init (Some sales_cube) (Some [(''amount'', RefStr ''other.column'')]) None
        (Some ''public'') None None (Some [date_raw_join])
     = Inr (sales_mapper\<lparr>self_mappings := Some [(''amount'', RefStr ''other.column'')]\<rparr>)"
    using a by (rule Mapper_init_mappings)
  from physical_ignores_mappings_argument [where cube = "Some sales_cube" and mappings_a = None and locale0 = None
       and fact_name = None and dimension_prefix = None and joins = "Some [date_raw_join]"
       and mapper_a = sales_mapper
       and mappings_b = "Some [(''amount'', RefStr ''other.column'')]"
       and mapper_b = "sales_mapper\<lparr>self_mappings := Some [(''amount'', RefStr ''other.column'')]\<rparr>"
       and attribute = amount_attribute]
    a b
  show ?thesis by blast
qed

section \<open>Properties of physical\<close>

text \<open>
  \<^verbatim>\<open>physical\<close> in terms of the resolved locale: the key looked up in the override table
  and the column of the default reference are both built from it.
\<close>

lemma physical_by_resolved_locale:
  "physical self attribute locale =
     (case (case cube_mappings (self_cube self) of
              None \<Rightarrow> None
            | Some d \<Rightarrow>
                map_of d (logical self attribute @
                  (case fix_locale attribute locale of None \<Rightarrow> []
                   | Some l \<Rightarrow> if l = [] then [] else ''.'' @ l))) of
        Some r \<Rightarrow>
          if truthy_ref r
          then coalesce_physical r (self_fact_name self) (self_schema self)
          else Inr ((default_reference self attribute None)
                 \<lparr>column := Some (attribute_name attribute @
                      (case fix_locale attribute locale of None \<Rightarrow> []
                       | Some l \<Rightarrow> if l = [] then [] else ''_'' @ l))\<rparr>)
      | None \<Rightarrow>
          Inr ((default_reference self attribute None)
                 \<lparr>column := Some (attribute_name attribute @
                      (case fix_locale attribute locale of None \<Rightarrow> []
                       | Some l \<Rightarrow> if l = [] then [] else ''_'' @ l))\<rparr>))"
proof (cases "cube_mappings (self_cube self)")
  case None
  then show ?thesis
    by (cases "fix_locale attribute locale")
       (auto simp: physical_def mapped_reference_def truthy_mappings_def default_reference_def
          Let_def split: option.splits)
next
  case (Some m)
  show ?thesis
  proof (cases "m = []")
    case True
    with Some show ?thesis
      by (cases "fix_locale attribute locale")
         (auto simp: physical_def mapped_reference_def truthy_mappings_def default_reference_def
            Let_def split: option.splits)
  next
    case False
    with Some show ?thesis
      by (cases "fix_locale attribute locale")
         (auto simp: physical_def mapped_reference_def truthy_mappings_def default_reference_def
            Let_def split: option.splits sum.splits)
  qed
qed

text \<open>
  C4. When the attribute declares a non-empty list of locales, the resolved locale is the
  requested one if it is in the list and the first declared one otherwise; when it declares
  none, or reading them raises, the resolved locale is \<^verbatim>\<open>None\<close> whatever is requested. The
  result of \<^verbatim>\<open>physical\<close> depends on the requested locale only through the resolved one,
  and it is used for both the lookup and the suffix: the key looked up in the override
  table is the logical reference followed by a dot and the resolved locale, the column of
  the default reference is the attribute's name followed by an underscore and the
  resolved locale (nothing is appended for \<^verbatim>\<open>None\<close> or the empty string).
\<close>

theorem locale_resolution:
  "(\<forall>ls. locales attribute = Locales ls \<and> ls \<noteq> [] \<longrightarrow>
      fix_locale attribute locale
        = (if \<exists>l \<in> set ls. locale = Some l then locale else Some (hd ls)))
   \<and> (locales attribute \<in> {Locales [], LocalesNone, LocalesRaises} \<longrightarrow>
        fix_locale attribute locale = None)
   \<and> (fix_locale attribute locale = fix_locale attribute locale' \<longrightarrow>
        physical self attribute locale = physical self attribute locale')
   \<and> physical self attribute locale =
     (case (case cube_mappings (self_cube self) of
              None \<Rightarrow> None
            | Some d \<Rightarrow>
                map_of d (logical self attribute @
                  (case fix_locale attribute locale of None \<Rightarrow> []
                   | Some l \<Rightarrow> if l = [] then [] else ''.'' @ l))) of
        Some r \<Rightarrow>
          if truthy_ref r
          then coalesce_physical r (self_fact_name self) (self_schema self)
          else Inr ((default_reference self attribute None)
                 \<lparr>column := Some (attribute_name attribute @
                      (case fix_locale attribute locale of None \<Rightarrow> []
                       | Some l \<Rightarrow> if l = [] then [] else ''_'' @ l))\<rparr>)
      | None \<Rightarrow>
          Inr ((default_reference self attribute None)
                 \<lparr>column := Some (attribute_name attribute @
                      (case fix_locale attribute locale of None \<Rightarrow> []
                       | Some l \<Rightarrow> if l = [] then [] else ''_'' @ l))\<rparr>))"
proof -
  have "(\<forall>ls. locales attribute = Locales ls \<and> ls \<noteq> [] \<longrightarrow>
      fix_locale attribute locale
        = (if \<exists>l \<in> set ls. locale = Some l then locale else Some (hd ls)))
   \<and> (locales attribute \<in> {Locales [], LocalesNone, LocalesRaises} \<longrightarrow>
        fix_locale attribute locale = None)
   \<and> (fix_locale attribute locale = fix_locale attribute locale' \<longrightarrow>
        physical self attribute locale = physical self attribute locale')"
    by (auto simp: fix_locale_def physical_def split: option.splits)
  with physical_by_resolved_locale [of self attribute] show ?thesis by blast
qed

theorem locale_resolution_witness:
  "fix_locale label_attribute (Some ''sk'') = Some ''sk''
   \<and> fix_locale label_attribute (Some ''de'') = Some ''en''
   \<and> fix_locale label_attribute None = Some ''en''
   \<and> fix_locale amount_attribute (Some ''sk'') = None
   \<and> physical label_mapper label_attribute (Some ''sk'')
       = Inr \<lparr>schema = Some ''public'', table = Some ''tr'', column = Some ''label_sk''\<rparr>
   \<and> physical label_mapper label_attribute (Some ''de'')
       = Inr \<lparr>schema = Some ''public'', table = Some ''sales'', column = Some ''label_en''\<rparr>
   \<and> physical label_mapper amount_attribute (Some ''sk'')
       = Inr \<lparr>schema = Some ''public'', table = Some ''sales'', column = Some ''amount''\<rparr>
   \<and> physical label_mapper amount_attribute (Some ''sk'')
       = physical label_mapper amount_attribute None"
proof -
  have l: "locales label_attribute = Locales [''en'', ''sk'']"
    "locales amount_attribute = Locales []"
    by (simp_all add: label_attribute_def amount_attribute_def)
  have f: "fix_locale label_attribute (Some ''sk'') = Some ''sk''"
    "fix_locale label_attribute (Some ''de'') = Some ''en''"
    "fix_locale label_attribute None = Some ''en''"
    "fix_locale amount_attribute (Some ''sk'') = None"
    "fix_locale amount_attribute None = None"
    using l
      locale_resolution [of label_attribute "Some ''sk''"]
      locale_resolution [of label_attribute "Some ''de''"]
      locale_resolution [of label_attribute None]
      locale_resolution [of amount_attribute "Some ''sk''"]
      locale_resolution [of amount_attribute None]
    by simp_all
  have m: "cube_mappings (self_cube label_mapper) = Some [(''label.sk'', RefStr ''tr.label_sk'')]"
    "logical label_mapper label_attribute = ''label''"
    "logical label_mapper amount_attribute = ''amount''"
    "self_fact_name label_mapper = Some ''sales''" "self_schema label_mapper = Some ''public''"
    "default_reference label_mapper label_attribute None
       = \<lparr>schema = Some ''public'', table = Some ''sales'', column = Some ''label''\<rparr>"
    "default_reference label_mapper amount_attribute None
       = \<lparr>schema = Some ''public'', table = Some ''sales'', column = Some ''amount''\<rparr>"
    "attribute_name label_attribute = ''label''" "attribute_name amount_attribute = ''amount''"
    "coalesce_physical (RefStr ''tr.label_sk'') (Some ''sales'') (Some ''public'')
       = Inr \<lparr>schema = Some ''public'', table = Some ''tr'', column = Some ''label_sk''\<rparr>"
    by (simp_all add: label_mapper_def sales_mapper_def logical_def label_attribute_def
        amount_attribute_def default_reference_def coalesce_physical_def split_dot_def)
  have p: "physical label_mapper label_attribute (Some ''sk'')
       = Inr \<lparr>schema = Some ''public'', table = Some ''tr'', column = Some ''label_sk''\<rparr>"
    "physical label_mapper label_attribute (Some ''de'')
       = Inr \<lparr>schema = Some ''public'', table = Some ''sales'', column = Some ''label_en''\<rparr>"
    "physical label_mapper amount_attribute (Some ''sk'')
       = Inr \<lparr>schema = Some ''public'', table = Some ''sales'', column = Some ''amount''\<rparr>"
    "physical label_mapper amount_attribute None
       = Inr \<lparr>schema = Some ''public'', table = Some ''sales'', column = Some ''amount''\<rparr>"
    using
      locale_resolution [of label_attribute "Some ''sk''" _ label_mapper]
      locale_resolution [of label_attribute "Some ''de''" _ label_mapper]
      locale_resolution [of amount_attribute "Some ''sk''" _ label_mapper]
      locale_resolution [of amount_attribute None _ label_mapper]
    by (simp_all add: f m)
  from f p show ?thesis by simp
qed

text \<open>
  C2, amended. When the cube's override table is not empty and holds, under the logical
  reference of the attribute (followed by a dot and the resolved locale when that is a
  non-empty string), a raw reference that is itself not empty, \<^verbatim>\<open>physical\<close> returns that
  raw reference coalesced with the fact name as default table and the Mapper's schema as
  default schema.
\<close>

theorem physical_override:
  assumes "cube_mappings (self_cube self) = Some d" "d \<noteq> []"
    and "map_of d (logical self attribute @
           (case fix_locale attribute locale of None \<Rightarrow> []
            | Some l \<Rightarrow> if l = [] then [] else ''.'' @ l)) = Some r"
    and "truthy_ref r"
  shows "physical self attribute locale
           = coalesce_physical r (self_fact_name self) (self_schema self)"
proof (cases "truthy (fix_locale attribute locale)")
  case True
  then obtain l where "fix_locale attribute locale = Some l" "l \<noteq> []"
    by (cases "fix_locale attribute locale") auto
  with assms show ?thesis
    by (simp add: physical_def mapped_reference_def truthy_mappings_def split: sum.splits)
next
  case False
  then have "fix_locale attribute locale = None \<or> fix_locale attribute locale = Some []"
    by (cases "fix_locale attribute locale") auto
  with assms False show ?thesis
    by (auto simp: physical_def mapped_reference_def truthy_mappings_def split: sum.splits)
qed

lemma sales_month_logical: "logical sales_mapper month_attribute = ''date.month''"
  by (simp add: logical_def sales_mapper_def month_attribute_def date_dimension_def)

lemma month_fix_locale: "fix_locale month_attribute locale = None"
  by (simp add: fix_locale_def month_attribute_def)

theorem physical_override_witness:
  "physical sales_mapper month_attribute None
     = Inr \<lparr>schema = Some ''public'', table = Some ''dim_date'', column = Some ''month_num''\<rparr>"
proof -
  have "physical sales_mapper month_attribute None
     = coalesce_physical (RefStr ''dim_date.month_num'') (self_fact_name sales_mapper)
         (self_schema sales_mapper)"
    by (rule physical_override [where d = "[(''date.month'', RefStr ''dim_date.month_num'')]"])
       (simp_all add: sales_month_logical month_fix_locale, simp_all add: sales_mapper_def sales_cube_def)
  then show ?thesis
    by (simp add: coalesce_physical_def split_dot_def sales_mapper_def)
qed

text \<open>
  C2, as stated, fails: an override entry whose raw value is the empty string is skipped
  by \<^verbatim>\<open>if mapped_ref\<close>, and \<^verbatim>\<open>physical\<close> returns the default reference, not the
  coalescing of the entry. And for an attribute whose resolved locale is the empty string
  the key is the logical reference alone: an entry under the reference followed by a dot
  is not found.
\<close>

theorem physical_empty_override_counterexample:
  "cube_mappings (self_cube (sales_mapper\<lparr>self_cube :=
       sales_cube\<lparr>cube_mappings := Some [(''date.month'', RefStr '''')]\<rparr>\<rparr>))
     = Some [(''date.month'', RefStr '''')]
   \<and> logical (sales_mapper\<lparr>self_cube :=
         sales_cube\<lparr>cube_mappings := Some [(''date.month'', RefStr '''')]\<rparr>\<rparr>) month_attribute
     = ''date.month''
   \<and> physical (sales_mapper\<lparr>self_cube :=
         sales_cube\<lparr>cube_mappings := Some [(''date.month'', RefStr '''')]\<rparr>\<rparr>) month_attribute None
     = Inr \<lparr>schema = Some ''public'', table = Some ''date'', column = Some ''month''\<rparr>
   \<and> coalesce_physical (RefStr '''') (Some ''sales'') (Some ''public'')
     = Inr \<lparr>schema = Some ''public'', table = Some ''sales'', column = Some ''''\<rparr>
   \<and> fix_locale \<lparr>attribute_name = ''amount'', dimension = None, locales = Locales ['''']\<rparr> None
     = Some ''''
   \<and> physical (sales_mapper\<lparr>self_cube :=
         sales_cube\<lparr>cube_mappings := Some [(''amount.'', RefStr ''t.c'')]\<rparr>\<rparr>)
        \<lparr>attribute_name = ''amount'', dimension = None, locales = Locales ['''']\<rparr> None
     = Inr \<lparr>schema = Some ''public'', table = Some ''sales'', column = Some ''amount''\<rparr>
   \<and> coalesce_physical (RefStr ''t.c'') (Some ''sales'') (Some ''public'')
     = Inr \<lparr>schema = Some ''public'', table = Some ''t'', column = Some ''c''\<rparr>"
  by (simp add: physical_def mapped_reference_def default_reference_def truthy_mappings_def
      fix_locale_def logical_def sales_mapper_def month_attribute_def date_dimension_def
      coalesce_physical_def split_dot_def Let_def)

text \<open>
  C3, amended. When the cube has no override table, or an empty one, or one with no entry
  under the key, \<^verbatim>\<open>physical\<close> returns the Mapper's schema, the column made of the
  attribute's name followed by an underscore and the resolved locale when that is a
  non-empty string, and as table the dimension's name behind the dimension prefix (when a
  prefix is set) for an attribute of a dimension that is not simplified, the fact name
  otherwise.
\<close>

theorem physical_convention:
  assumes "cube_mappings (self_cube self) = None \<or> cube_mappings (self_cube self) = Some []
     \<or> (\<exists>d. cube_mappings (self_cube self) = Some d
           \<and> map_of d (logical self attribute @
                 (case fix_locale attribute locale of None \<Rightarrow> []
                  | Some l \<Rightarrow> if l = [] then [] else ''.'' @ l)) = None)"
  shows "physical self attribute locale =
     Inr \<lparr>schema = self_schema self,
          table =
            (case dimension attribute of
               None \<Rightarrow> self_fact_name self
             | Some dim \<Rightarrow>
                 if self_simplify_dimension_references self \<and> is_flat dim \<and> \<not> has_details dim
                 then self_fact_name self
                 else Some ((case self_dimension_table_prefix self of None \<Rightarrow> [] | Some p \<Rightarrow> p)
                            @ dimension_name dim)),
          column = Some (attribute_name attribute @
                 (case fix_locale attribute locale of None \<Rightarrow> []
                  | Some l \<Rightarrow> if l = [] then [] else ''_'' @ l))\<rparr>"
proof -
  have m: "mapped_reference self attribute (fix_locale attribute locale) = Inr None"
    using assms
    by (cases "fix_locale attribute locale")
       (auto simp: mapped_reference_def truthy_mappings_def Let_def)
  have d: "default_reference self attribute (fix_locale attribute locale) =
     \<lparr>schema = self_schema self,
          table =
            (case dimension attribute of
               None \<Rightarrow> self_fact_name self
             | Some dim \<Rightarrow>
                 if self_simplify_dimension_references self \<and> is_flat dim \<and> \<not> has_details dim
                 then self_fact_name self
                 else Some ((case self_dimension_table_prefix self of None \<Rightarrow> [] | Some p \<Rightarrow> p)
                            @ dimension_name dim)),
          column = Some (attribute_name attribute @
                 (case fix_locale attribute locale of None \<Rightarrow> []
                  | Some l \<Rightarrow> if l = [] then [] else ''_'' @ l))\<rparr>"
    by (cases "fix_locale attribute locale"; cases "self_dimension_table_prefix self")
       (auto simp: default_reference_def Let_def split: option.splits)
  show ?thesis
    by (simp add: physical_def m d)
qed

theorem physical_convention_witness:
  "physical sales_mapper amount_attribute None
     = Inr \<lparr>schema = Some ''public'', table = Some ''sales'', column = Some ''amount''\<rparr>"
proof -
  have "map_of [(''date.month'', RefStr ''dim_date.month_num'')] ''amount'' = None" by simp
  then have "cube_mappings (self_cube sales_mapper) = None
     \<or> cube_mappings (self_cube sales_mapper) = Some []
     \<or> (\<exists>d. cube_mappings (self_cube sales_mapper) = Some d
           \<and> map_of d (logical sales_mapper amount_attribute @
                 (case fix_locale amount_attribute None of None \<Rightarrow> []
                  | Some l \<Rightarrow> if l = [] then [] else ''.'' @ l)) = None)"
    by (simp add: sales_mapper_def sales_cube_def logical_def amount_attribute_def fix_locale_def)
  from physical_convention [OF this] show ?thesis
    by (simp add: sales_mapper_def amount_attribute_def fix_locale_def)
qed

text \<open>
  C3, as stated, fails: for an attribute whose first declared locale is the empty string
  the resolved locale is that string, not \<^verbatim>\<open>None\<close>, and \<^verbatim>\<open>if locale\<close> appends no suffix.
\<close>

theorem physical_empty_locale_counterexample:
  "fix_locale \<lparr>attribute_name = ''amount'', dimension = None, locales = Locales ['''']\<rparr> None
     = Some ''''
   \<and> cube_mappings (self_cube sales_mapper) = Some [(''date.month'', RefStr ''dim_date.month_num'')]
   \<and> map_of [(''date.month'', RefStr ''dim_date.month_num'')] ''amount'' = None
   \<and> map_of [(''date.month'', RefStr ''dim_date.month_num'')] ''amount.'' = None
   \<and> physical sales_mapper
        \<lparr>attribute_name = ''amount'', dimension = None, locales = Locales ['''']\<rparr> None
     = Inr \<lparr>schema = Some ''public'', table = Some ''sales'', column = Some ''amount''\<rparr>
   \<and> ''amount'' \<noteq> ''amount'' @ ''_'' @ ''''"
  by (simp add: physical_def mapped_reference_def default_reference_def truthy_mappings_def
      fix_locale_def logical_def sales_mapper_def sales_cube_def Let_def)

section \<open>Properties of table_map\<close>






section \<open>Properties of relevant_joins\<close>

lemma rj_while_empty: "rj_while js ({||}, J, res) = {res}"
  by (simp add: rj_while.simps)

lemma rj_while_single:
  "rj_while js ({|t|}, J, res) = rj_while js (scan_joins js t ({||}, J, res))"
  by (subst rj_while.simps) simp

lemma rj_while_not_empty: "rj_while js st \<noteq> {}"
proof (induction js st rule: rj_while.induct)
  case (1 js W J res)
  show ?case
  proof (cases "W = {||}")
    case True
    then show ?thesis by (simp add: rj_while_empty)
  next
    case False
    then obtain t where t: "t |\<in>| W" by auto
    from 1 [OF False t] t False show ?thesis
      by (subst rj_while.simps) auto
  qed
qed

lemma rj_iteration_measure:
  "(st', st) \<in> rj_iteration js \<Longrightarrow> rj_measure js st' < rj_measure js st"
  by (cases st) (auto simp: rj_iteration_def rj_measure_decreases)

lemma wf_rj_iteration: "wf (rj_iteration js)"
proof (rule wf_subset)
  show "wf (measure (rj_measure js))" by simp
  show "rj_iteration js \<subseteq> measure (rj_measure js)"
    by (auto dest: rj_iteration_measure)
qed

lemma rj_iterations_bounded:
  "(st', st) \<in> rj_iteration js ^^ n \<Longrightarrow> n + rj_measure js st' \<le> rj_measure js st"
proof (induction n arbitrary: st)
  case 0
  then show ?case by simp
next
  case (Suc n)
  from Suc.prems obtain mid where
    a: "(st', mid) \<in> rj_iteration js ^^ n" and b: "(mid, st) \<in> rj_iteration js"
    by (auto elim: relpow_Suc_E)
  from Suc.IH [OF a] rj_iteration_measure [OF b] show ?case by linarith
qed

lemma fcard_fset_of_list_le: "fcard (fset_of_list xs) \<le> length xs"
  by (induction xs) (auto simp: fcard_finsert_if)

lemma rj_measure_initial:
  "rj_measure js (fset_of_list ks, {||}, []) \<le> length ks + 2 * length js"
proof -
  have "fcard (fset_of_list (map detail_key js)) \<le> length js"
    using fcard_fset_of_list_le [of "map detail_key js"] by simp
  with fcard_fset_of_list_le [of ks] show ?thesis
    by (simp add: rj_measure_def fcard_fempty del: fset_of_list_map)
qed

lemma scan_joins_joined:
  assumes "scan_joins js t (W, J, res) = (W', J', res')"
  shows "J |\<subseteq>| J' \<and> (res' \<noteq> res \<longrightarrow> t |\<in>| J') \<and> (\<forall>x. x |\<in>| J \<and> x |\<notin>| W \<longrightarrow> x |\<notin>| W')"
  using assms by (auto simp: scan_joins_find split: option.splits if_splits)

text \<open>
  C10. One iteration of the loop of \<^verbatim>\<open>relevant_joins\<close> is a well-founded relation, so no
  run goes on forever; every call returns some list; a run from the initial state makes at
  most as many iterations as there are references plus twice the joins. An iteration only
  adds to \<^verbatim>\<open>joined_tables\<close>, marks the popped table as joined when it appends a join, and
  does not put a table that is marked as joined back into the work-set.
\<close>

theorem relevant_joins_terminates:
  "wf (rj_iteration (self_joins self))
   \<and> relevant_joins self attributes \<noteq> {}
   \<and> (\<forall>n st. (st, (fset_of_list (map (\<lambda>ref. (schema ref, table ref)) attributes), {||}, []))
                 \<in> rj_iteration (self_joins self) ^^ n
         \<longrightarrow> n \<le> length attributes + 2 * length (self_joins self))
   \<and> (\<forall>t W J res W' J' res'.
         scan_joins (self_joins self) t (W, J, res) = (W', J', res') \<longrightarrow>
           J |\<subseteq>| J' \<and> (res' \<noteq> res \<longrightarrow> t |\<in>| J')
           \<and> (\<forall>x. x |\<in>| J \<and> x |\<notin>| W \<longrightarrow> x |\<notin>| W'))"
proof -
  have "n \<le> length attributes + 2 * length (self_joins self)"
    if "(st, (fset_of_list (map (\<lambda>ref. (schema ref, table ref)) attributes), {||}, []))
                 \<in> rj_iteration (self_joins self) ^^ n" for n st
    using rj_iterations_bounded [OF that]
      rj_measure_initial [of "self_joins self" "map (\<lambda>ref. (schema ref, table ref)) attributes"]
    by simp
  moreover have "relevant_joins self attributes \<noteq> {}"
    unfolding relevant_joins_def by (rule rj_while_not_empty)
  ultimately show ?thesis
    using wf_rj_iteration scan_joins_joined by blast
qed

theorem relevant_joins_terminates_witness:
  "wf (rj_iteration (self_joins sales_mapper))
   \<and> relevant_joins sales_mapper
        [\<lparr>schema = None, table = Some ''d'', column = Some ''month''\<rparr>] = {[date_join]}
   \<and> scan_joins (self_joins sales_mapper) (None, Some ''d'') ({||}, {||}, [])
       = ({|(None, Some ''sales'')|}, {|(None, Some ''d'')|}, [date_join])
   \<and> (None, Some ''d'') |\<in>| {|(None, Some ''d'')|}"
proof -
  have s: "scan_joins (self_joins sales_mapper) (None, Some ''d'') ({||}, {||}, [])
       = ({|(None, Some ''sales'')|}, {|(None, Some ''d'')|}, [date_join])"
    by (simp add: sales_mapper_def date_join_def detail_key_def master_key_def py_or_def)
  have r: "relevant_joins sales_mapper
        [\<lparr>schema = None, table = Some ''d'', column = Some ''month''\<rparr>] = {[date_join]}"
    by (simp add: relevant_joins_def rj_while_single rj_while_empty sales_mapper_def date_join_def
      detail_key_def master_key_def py_or_def)
  from relevant_joins_terminates [of sales_mapper
        "[\<lparr>schema = None, table = Some ''d'', column = Some ''month''\<rparr>]"] s r
  show ?thesis by blast
qed

lemma rj_iteration_iff:
  "((W', J', res'), (W, J, res)) \<in> rj_iteration js \<longleftrightarrow>
     (\<exists>t. t |\<in>| W \<and>
        (W', J', res') =
          (case find (\<lambda>j. t = detail_key j) js of
             None \<Rightarrow> (W |-| {|t|}, J, res)
           | Some j \<Rightarrow> ((if master_key j |\<in>| J then W |-| {|t|}
                         else finsert (master_key j) (W |-| {|t|})),
                        finsert (detail_key j) J, res @ [j])))"
proof -
  have "scan_joins js t (W |-| {|t|}, J, res) =
          (case find (\<lambda>j. t = detail_key j) js of
             None \<Rightarrow> (W |-| {|t|}, J, res)
           | Some j \<Rightarrow> ((if master_key j |\<in>| J then W |-| {|t|}
                         else finsert (master_key j) (W |-| {|t|})),
                        finsert (detail_key j) J, res @ [j]))" for t
  proof (cases "find (\<lambda>j. t = detail_key j) js")
    case None
    then show ?thesis by (simp add: scan_joins_find)
  next
    case (Some j)
    then have "t = detail_key j" by (auto simp: find_Some_iff)
    with Some show ?thesis by (simp add: scan_joins_find)
  qed
  then show ?thesis
    by (auto simp: rj_iteration_def)
qed

lemma rj_while_step:
  assumes "(st', st) \<in> rj_iteration js" "out \<in> rj_while js st'"
  shows "out \<in> rj_while js st"
proof -
  obtain W J res where st: "st = (W, J, res)" by (cases st) auto
  from assms(1) st obtain t where t: "t |\<in>| W" and
    st': "st' = scan_joins js t (W |-| {|t|}, J, res)"
    by (auto simp: rj_iteration_def)
  from t have "W \<noteq> {||}" by auto
  with t st' assms(2) show ?thesis
    unfolding st by (subst rj_while.simps) auto
qed

lemma rj_while_runs:
  "out \<in> rj_while js st \<longleftrightarrow> (\<exists>J. (({||}, J, out), st) \<in> (rj_iteration js)\<^sup>*)"
proof
  show "\<exists>J. (({||}, J, out), st) \<in> (rj_iteration js)\<^sup>*" if "out \<in> rj_while js st"
    using that
  proof (induction js st rule: rj_while.induct)
    case (1 js W J res)
    show ?case
    proof (cases "W = {||}")
      case True
      with 1(2) have "out = res" by (simp add: rj_while_empty)
      with True show ?thesis by auto
    next
      case False
      with 1(2) obtain t where t: "t |\<in>| W"
        and o: "out \<in> rj_while js (scan_joins js t (W |-| {|t|}, J, res))"
        by (subst (asm) rj_while.simps) auto
      from 1(1) [OF False t o] obtain J' where
        r: "(({||}, J', out), scan_joins js t (W |-| {|t|}, J, res)) \<in> (rj_iteration js)\<^sup>*"
        by blast
      have "(scan_joins js t (W |-| {|t|}, J, res), (W, J, res)) \<in> rj_iteration js"
        using t by (simp add: rj_iteration_def) (rule exI [of _ "fst t"], rule exI [of _ "snd t"], simp)
      with r have "(({||}, J', out), (W, J, res)) \<in> (rj_iteration js)\<^sup>*"
        by (rule rtrancl_into_rtrancl)
      then show ?thesis by blast
    qed
  qed
next
  assume "\<exists>J. (({||}, J, out), st) \<in> (rj_iteration js)\<^sup>*"
  then obtain J where "(({||}, J, out), st) \<in> (rj_iteration js)\<^sup>*" by blast
  then show "out \<in> rj_while js st"
  proof (induction rule: rtrancl_induct)
    case base
    show ?case by (simp add: rj_while_empty)
  next
    case (step y z)
    from step(2) step(3) show ?case by (rule rj_while_step)
  qed
qed

text \<open>
  C1, amended. The detail key of a join is its detail schema with its alias, or with its
  detail table when the alias is \<^verbatim>\<open>None\<close> or empty; the master key is the master's schema
  and table. One iteration removes some table from the work-set and scans the joins in
  order: when none has that table as its detail key nothing else changes; otherwise the
  first such join is appended, its master key is added to the work-set unless it is marked
  as joined, and the detail key is marked as joined. The lists \<^verbatim>\<open>relevant_joins\<close> can
  return are exactly the join lists of the states with an empty work-set that iterations
  reach from the initial state: the (schema, table) pairs of the references as work-set,
  nothing joined, no joins. For a Mapper whose only join has the detail table
  \<^verbatim>\<open>dim_date\<close> and the alias \<^verbatim>\<open>d\<close>, a reference with the table \<^verbatim>\<open>dim_date\<close> gives no join,
  and a reference with the table \<^verbatim>\<open>d\<close> and the schema of the join's detail gives exactly
  that join, provided the join's master key is not its own detail key.
\<close>

theorem relevant_joins_runs:
  "detail_key join
     = (schema (detail join),
        (if alias join = None \<or> alias join = Some [] then table (detail join) else alias join))
   \<and> master_key join = (schema (master join), table (master join))
   \<and> (((W', J', res'), (W, J, res)) \<in> rj_iteration (self_joins self) \<longleftrightarrow>
        (\<exists>t. t |\<in>| W \<and>
           (W', J', res') =
             (case find (\<lambda>j. t = detail_key j) (self_joins self) of
                None \<Rightarrow> (W |-| {|t|}, J, res)
              | Some j \<Rightarrow> ((if master_key j |\<in>| J then W |-| {|t|}
                            else finsert (master_key j) (W |-| {|t|})),
                           finsert (detail_key j) J, res @ [j]))))
   \<and> (out \<in> relevant_joins self attributes \<longleftrightarrow>
        (\<exists>joined. (({||}, joined, out),
                     (fset_of_list (map (\<lambda>ref. (schema ref, table ref)) attributes), {||}, []))
                   \<in> (rj_iteration (self_joins self))\<^sup>*))
   \<and> (self_joins self = [j] \<and> table (detail j) = Some ''dim_date'' \<and> alias j = Some ''d'' \<longrightarrow>
        (table ref = Some ''dim_date'' \<longrightarrow> relevant_joins self [ref] = {[]})
        \<and> (table ref = Some ''d'' \<and> schema ref = schema (detail j)
             \<and> master_key j \<noteq> detail_key j \<longrightarrow> relevant_joins self [ref] = {[j]}))"
proof -
  have keys: "detail_key join
     = (schema (detail join),
        (if alias join = None \<or> alias join = Some [] then table (detail join) else alias join))"
    "master_key join = (schema (master join), table (master join))"
    by (cases "alias join"; simp add: detail_key_def master_key_def py_or_def)+
  have runs: "out \<in> relevant_joins self attributes \<longleftrightarrow>
        (\<exists>joined. (({||}, joined, out),
                     (fset_of_list (map (\<lambda>ref. (schema ref, table ref)) attributes), {||}, []))
                   \<in> (rj_iteration (self_joins self))\<^sup>*)"
    unfolding relevant_joins_def by (rule rj_while_runs)
  have ex: "(table ref = Some ''dim_date'' \<longrightarrow> relevant_joins self [ref] = {[]})
        \<and> (table ref = Some ''d'' \<and> schema ref = schema (detail j)
             \<and> master_key j \<noteq> detail_key j \<longrightarrow> relevant_joins self [ref] = {[j]})"
    if j: "self_joins self = [j]" "table (detail j) = Some ''dim_date''" "alias j = Some ''d''"
  proof -
    have key: "detail_key j = (schema (detail j), Some ''d'')"
      using j by (simp add: detail_key_def py_or_def)
    have a: "relevant_joins self [ref] = {[]}" if "table ref = Some ''dim_date''"
      using that j(1) key
      by (simp add: relevant_joins_def rj_while_single rj_while_empty)
    have b: "relevant_joins self [ref] = {[j]}"
      if "table ref = Some ''d''" "schema ref = schema (detail j)" "master_key j \<noteq> detail_key j"
      using that j(1) key
      by (simp add: relevant_joins_def rj_while_single rj_while_empty)
    from a b show ?thesis by blast
  qed
  from keys rj_iteration_iff [of W' J' res' W J res "self_joins self"] runs ex
  show ?thesis by blast
qed

text \<open>The chain: the master of the first join found is expanded in its turn.\<close>

lemma chain_relevant_joins:
  "relevant_joins (sales_mapper\<lparr>self_joins := [product_join, category_join]\<rparr>)
        [\<lparr>schema = None, table = Some ''category'', column = Some ''name''\<rparr>]
     = {[category_join, product_join]}"
  by (simp add: relevant_joins_def rj_while_single rj_while_empty product_join_def
      category_join_def detail_key_def master_key_def py_or_def)

theorem relevant_joins_runs_witness:
  "self_joins sales_mapper = [date_join]
   \<and> table (detail date_join) = Some ''dim_date'' \<and> alias date_join = Some ''d''
   \<and> relevant_joins sales_mapper
        [\<lparr>schema = None, table = Some ''dim_date'', column = Some ''month''\<rparr>] = {[]}
   \<and> relevant_joins sales_mapper
        [\<lparr>schema = None, table = Some ''d'', column = Some ''month''\<rparr>] = {[date_join]}
   \<and> relevant_joins (sales_mapper\<lparr>self_joins := [product_join, category_join]\<rparr>)
        [\<lparr>schema = None, table = Some ''category'', column = Some ''name''\<rparr>]
     = {[category_join, product_join]}
   \<and> (\<exists>joined. (({||}, joined, [category_join, product_join]),
                  ({|(None, Some ''category'')|}, {||}, []))
                \<in> (rj_iteration [product_join, category_join])\<^sup>*)"
proof -
  have h: "self_joins sales_mapper = [date_join]"
    "table (detail date_join) = Some ''dim_date''" "alias date_join = Some ''d''"
    "schema (detail date_join) = None" "master_key date_join \<noteq> detail_key date_join"
    by (simp_all add: sales_mapper_def date_join_def master_key_def detail_key_def py_or_def)
  have c: "[category_join, product_join]
      \<in> relevant_joins (sales_mapper\<lparr>self_joins := [product_join, category_join]\<rparr>)
        [\<lparr>schema = None, table = Some ''category'', column = Some ''name''\<rparr>]"
    by (simp add: chain_relevant_joins)
  have r: "\<exists>joined. (({||}, joined, [category_join, product_join]),
                  ({|(None, Some ''category'')|}, {||}, []))
                \<in> (rj_iteration [product_join, category_join])\<^sup>*"
    using c relevant_joins_runs
      [of _ _ _ _ _ _ _ "sales_mapper\<lparr>self_joins := [product_join, category_join]\<rparr>"
          "[category_join, product_join]"
          "[\<lparr>schema = None, table = Some ''category'', column = Some ''name''\<rparr>]"]
    by simp
  from h r chain_relevant_joins
    relevant_joins_runs [of _ _ _ _ _ _ _ sales_mapper _ _ date_join
      "\<lparr>schema = None, table = Some ''dim_date'', column = Some ''month''\<rparr>"]
    relevant_joins_runs [of _ _ _ _ _ _ _ sales_mapper _ _ date_join
      "\<lparr>schema = None, table = Some ''d'', column = Some ''month''\<rparr>"]
  show ?thesis by simp
qed

text \<open>
  C1, as stated, fails: the example Mapper has the default schema \<^verbatim>\<open>public\<close>, its join
  was collected without a schema, and a reference with the table \<^verbatim>\<open>d\<close> and the schema
  \<^verbatim>\<open>public\<close> gives no join. When the master of the only join is itself the table
  \<^verbatim>\<open>d\<close>, a reference to \<^verbatim>\<open>d\<close> with the join's schema gives the join twice. And a join
  whose alias is the empty string is matched by its detail table, not by the alias.
\<close>

theorem relevant_joins_schema_counterexample:
  "self_joins sales_mapper = [date_join]
   \<and> table (detail date_join) = Some ''dim_date'' \<and> alias date_join = Some ''d''
   \<and> relevant_joins sales_mapper
        [\<lparr>schema = Some ''public'', table = Some ''d'', column = Some ''month''\<rparr>] = {[]}
   \<and> relevant_joins
        (sales_mapper\<lparr>self_joins :=
           [date_join\<lparr>master := \<lparr>schema = None, table = Some ''d'', column = Some ''parent''\<rparr>\<rparr>]\<rparr>)
        [\<lparr>schema = None, table = Some ''d'', column = Some ''month''\<rparr>]
      = {[date_join\<lparr>master := \<lparr>schema = None, table = Some ''d'', column = Some ''parent''\<rparr>\<rparr>,
          date_join\<lparr>master := \<lparr>schema = None, table = Some ''d'', column = Some ''parent''\<rparr>\<rparr>]}
   \<and> relevant_joins (sales_mapper\<lparr>self_joins := [date_join\<lparr>alias := Some ''''\<rparr>]\<rparr>)
        [\<lparr>schema = None, table = Some ''dim_date'', column = Some ''month''\<rparr>]
      = {[date_join\<lparr>alias := Some ''''\<rparr>]}"
  by (simp add: relevant_joins_def rj_while_single rj_while_empty sales_mapper_def date_join_def
      detail_key_def master_key_def py_or_def)

end
